theory Spec2Isabelle
  imports Main "HOL-Library.Word"
begin

section \<open>Destination types and values\<close>

text \<open>
  The binder inspects its destination through Go's \<^verbatim>\<open>reflect\<close> package. The model keeps
  what \<^verbatim>\<open>bind\<close> looks at: the kind of a type, the element type of a pointer or slice,
  whether the type (or a pointer to it) has an \<^verbatim>\<open>UnmarshalText\<close> method, and whether the
  type is exactly \<^verbatim>\<open>[]byte\<close>.

  \<open>TNamed n r u\<close> is a defined type \<^verbatim>\<open>type n u\<close>; \<open>r\<close> says whether it declares
  \<^verbatim>\<open>UnmarshalText\<close>, and with which receiver. \<open>TOther\<close> stands for every kind the
  coercer has no case for (struct, map, channel, function, interface, array, complex).
  Go's \<^verbatim>\<open>int\<close> and \<^verbatim>\<open>uint\<close> are \<open>SWord\<close>, taken at the 64 bits of amd64 and arm64.
\<close>

datatype isize = S8 | S16 | S32 | S64 | SWord

datatype fsize = F32 | F64

datatype receiver = NoUnmarshalText | ValueReceiver | PointerReceiver

datatype gtype =
    TString
  | TInt isize
  | TUint isize
  | TBool
  | TFloat fsize
  | TPtr gtype
  | TSlice gtype
  | TOther
  | TNamed string receiver gtype

text \<open>
  Values. A pointer is nil or points to a value allocated by \<^verbatim>\<open>reflect.New\<close>; a slice is
  nil or a (possibly empty) sequence; a float is the bit pattern of its IEEE double (or
  single, widened); \<open>VOpaque\<close> is a value of a kind the coercer does not handle.
\<close>

datatype gval =
    VString string
  | VInt int
  | VUint nat
  | VBool bool
  | VFloat "64 word"
  | VNil
  | VPtr gval
  | VNilSlice
  | VSlice "gval list"
  | VOpaque nat

datatype kind =
    KString
  | KInt isize
  | KUint isize
  | KBool
  | KFloat fsize
  | KPtr gtype
  | KSlice gtype
  | KOther

text \<open>\<^verbatim>\<open>Type.Kind()\<close> together with \<^verbatim>\<open>Type.Elem()\<close>: a defined type has the kind of its
  underlying type.\<close>

fun kindOf :: "gtype \<Rightarrow> kind" where
  "kindOf TString = KString"
| "kindOf (TInt s) = KInt s"
| "kindOf (TUint s) = KUint s"
| "kindOf TBool = KBool"
| "kindOf (TFloat s) = KFloat s"
| "kindOf (TPtr t) = KPtr t"
| "kindOf (TSlice t) = KSlice t"
| "kindOf TOther = KOther"
| "kindOf (TNamed n r u) = kindOf u"

text \<open>The zero value \<^verbatim>\<open>reflect.New(t).Elem()\<close> starts from.\<close>

fun zero :: "gtype \<Rightarrow> gval" where
  "zero TString = VString []"
| "zero (TInt s) = VInt 0"
| "zero (TUint s) = VUint 0"
| "zero TBool = VBool False"
| "zero (TFloat s) = VFloat 0"
| "zero (TPtr t) = VNil"
| "zero (TSlice t) = VNilSlice"
| "zero TOther = VOpaque 0"
| "zero (TNamed n r u) = zero u"

text \<open>
  \<^verbatim>\<open>outType.AssignableTo(textUnmarshalerType)\<close>: the method set of a defined type holds
  its value-receiver methods, the method set of a pointer to it holds all its methods.
\<close>

fun implementsTextUnmarshaler :: "gtype \<Rightarrow> bool" where
  "implementsTextUnmarshaler (TNamed n r u) = (r = ValueReceiver)"
| "implementsTextUnmarshaler (TPtr (TNamed n r u)) = (r \<noteq> NoUnmarshalText)"
| "implementsTextUnmarshaler t = False"

text \<open>\<^verbatim>\<open>reflect.TypeOf((*[]byte)(nil)).Elem()\<close>: the unnamed slice of \<^verbatim>\<open>uint8\<close>.\<close>

definition bytesType :: gtype where
  "bytesType = TSlice (TUint S8)"

section \<open>Errors and panics\<close>

text \<open>
  An \<open>error\<close> is what a function returns as its \<^verbatim>\<open>error\<close> result; \<open>External\<close> is an
  error made by a collaborator (base64, a custom \<^verbatim>\<open>UnmarshalText\<close>, the JSON decoder,
  a validator). A \<open>failure\<close> is a returned error or a run-time panic.
\<close>

datatype error =
    TextUnmarshalerNotPointer
  | InvalidKind
  | OutNotPointer
  | ErrSyntax string
  | ErrRange string
  | External string

datatype panic = IndexOutOfRange | NilDereference

datatype failure = Err error | Panic panic

section \<open>The standard library functions the coercer calls\<close>

text \<open>
  \<^verbatim>\<open>strconv.ParseUint(s, 10, 64)\<close>: digits only, no sign; the loop reports a range error
  as soon as the number passes \<open>2^64 - 1\<close>, and a syntax error at the first other byte.
\<close>

fun parseUintLoop :: "nat \<Rightarrow> string \<Rightarrow> string \<Rightarrow> error + nat" where
  "parseUintLoop n s0 [] = Inr n"
| "parseUintLoop n s0 (c # cs) =
     (if \<not> (48 \<le> (of_char c :: nat) \<and> (of_char c :: nat) \<le> 57) then Inl (ErrSyntax s0)
      else if n \<ge> (2 ^ 64 - 1) div 10 + 1 then Inl (ErrRange s0)
      else if n * 10 + ((of_char c :: nat) - 48) > 2 ^ 64 - 1 then Inl (ErrRange s0)
      else parseUintLoop (n * 10 + ((of_char c :: nat) - 48)) s0 cs)"

definition ParseUint :: "string \<Rightarrow> error + nat" where
  "ParseUint s = (if s = [] then Inl (ErrSyntax s) else parseUintLoop 0 s s)"

text \<open>
  \<^verbatim>\<open>strconv.ParseInt(s, 10, 64)\<close>: an optional sign, then \<^verbatim>\<open>ParseUint\<close>; a range error
  when the value is outside \<open>-2^63 .. 2^63 - 1\<close>.
\<close>

definition ParseInt :: "string \<Rightarrow> error + int" where
  "ParseInt s0 =
     (case s0 of
        [] \<Rightarrow> Inl (ErrSyntax s0)
      | c # cs \<Rightarrow>
          (let neg = (c = CHR ''-'');
               s = (if c = CHR ''+'' \<or> c = CHR ''-'' then cs else s0)
           in case ParseUint s of
                Inl (ErrRange _) \<Rightarrow> Inl (ErrRange s0)
              | Inl _ \<Rightarrow> Inl (ErrSyntax s0)
              | Inr un \<Rightarrow>
                  if \<not> neg \<and> un \<ge> 2 ^ 63 then Inl (ErrRange s0)
                  else if neg \<and> un > 2 ^ 63 then Inl (ErrRange s0)
                  else Inr (if neg then - int un else int un)))"

text \<open>\<^verbatim>\<open>strconv.ParseBool\<close>: the twelve accepted tokens.\<close>

definition ParseBool :: "string \<Rightarrow> error + bool" where
  "ParseBool s =
     (if s \<in> set [''1'', ''t'', ''T'', ''TRUE'', ''true'', ''True''] then Inr True
      else if s \<in> set [''0'', ''f'', ''F'', ''FALSE'', ''false'', ''False''] then Inr False
      else Inl (ErrSyntax s))"

text \<open>
  \<^verbatim>\<open>reflect.Value.SetInt\<close> and \<^verbatim>\<open>SetUint\<close> store the 64-bit argument converted to the
  field's own integer type; Go's integer conversion keeps the low bits.
\<close>

fun SetInt :: "isize \<Rightarrow> int \<Rightarrow> int" where
  "SetInt S8 x = sint (word_of_int x :: 8 word)"
| "SetInt S16 x = sint (word_of_int x :: 16 word)"
| "SetInt S32 x = sint (word_of_int x :: 32 word)"
| "SetInt S64 x = sint (word_of_int x :: 64 word)"
| "SetInt SWord x = sint (word_of_int x :: 64 word)"

fun SetUint :: "isize \<Rightarrow> nat \<Rightarrow> nat" where
  "SetUint S8 x = unat (word_of_nat x :: 8 word)"
| "SetUint S16 x = unat (word_of_nat x :: 16 word)"
| "SetUint S32 x = unat (word_of_nat x :: 32 word)"
| "SetUint S64 x = unat (word_of_nat x :: 64 word)"
| "SetUint SWord x = unat (word_of_nat x :: 64 word)"

fun bits :: "isize \<Rightarrow> nat" where
  "bits S8 = 8"
| "bits S16 = 16"
| "bits S32 = 32"
| "bits S64 = 64"
| "bits SWord = 64"

text \<open>
  The collaborators that stay abstract: \<^verbatim>\<open>strconv.ParseFloat(s, 64)\<close> (the bits of the
  double), the conversion \<^verbatim>\<open>float32(x)\<close>, \<^verbatim>\<open>base64.StdEncoding.DecodeString\<close>, the
  \<^verbatim>\<open>UnmarshalText\<close> method of a defined type run on a fresh zero value (the value it
  leaves there, or its error), \<^verbatim>\<open>textproto.CanonicalMIMEHeaderKey\<close> and
  \<^verbatim>\<open>mime.ParseMediaType\<close>: the media type it returns and its error. The two come
  together, since an invalid parameter gives the error along with the media type read
  so far.
\<close>

record env =
  ParseFloat :: "string \<Rightarrow> error + 64 word"
  float32 :: "64 word \<Rightarrow> 64 word"
  DecodeString :: "string \<Rightarrow> error + nat list"
  UnmarshalText :: "gtype \<Rightarrow> string \<Rightarrow> error + gval"
  CanonicalMIMEHeaderKey :: "string \<Rightarrow> string"
  ParseMediaType :: "string \<Rightarrow> string \<times> error option"

fun SetFloat :: "env \<Rightarrow> fsize \<Rightarrow> 64 word \<Rightarrow> 64 word" where
  "SetFloat env F32 x = float32 env x"
| "SetFloat env F64 x = x"

section \<open>The value coercer\<close>

text \<open>
  \<^verbatim>\<open>bind(outValue, values)\<close>. \<open>cur\<close> is what the slot \<^verbatim>\<open>outValue\<close> holds on entry; the
  result is the returned error (or the panic) and what the slot holds afterwards.
  \<open>bindElems\<close> is the \<^verbatim>\<open>for index, value := range values\<close> loop of the slice case over
  the local \<^verbatim>\<open>sliceValue\<close>.
\<close>

function bind :: "env \<Rightarrow> gtype \<Rightarrow> gval \<Rightarrow> string list \<Rightarrow> failure option \<times> gval"
  and bindElems :: "env \<Rightarrow> gtype \<Rightarrow> gval list \<Rightarrow> nat \<Rightarrow> string list \<Rightarrow> failure option \<times> gval list"
where
  "bind env outType cur values =
     (if implementsTextUnmarshaler outType then
        (case kindOf outType of
           KPtr elem \<Rightarrow>
             (case values of
                [] \<Rightarrow> (None, cur)
              | v0 # _ \<Rightarrow>
                  if v0 = [] then (None, cur)
                  else (case UnmarshalText env elem v0 of
                          Inl e \<Rightarrow> (Some (Err e), cur)
                        | Inr newFieldValue \<Rightarrow> (None, VPtr newFieldValue)))
         | _ \<Rightarrow> (Some (Err TextUnmarshalerNotPointer), cur))
      else if implementsTextUnmarshaler (TPtr outType) then
        (case values of
           [] \<Rightarrow> (None, cur)
         | v0 # _ \<Rightarrow>
             if v0 = [] then (None, cur)
             else (case UnmarshalText env outType v0 of
                     Inl e \<Rightarrow> (Some (Err e), cur)
                   | Inr newFieldValue \<Rightarrow> (None, newFieldValue)))
      else if outType = bytesType then
        (case values of
           [] \<Rightarrow> (Some (Panic IndexOutOfRange), cur)
         | v0 # _ \<Rightarrow>
             (case DecodeString env v0 of
                Inl e \<Rightarrow> (Some (Err e), cur)
              | Inr valueBytes \<Rightarrow> (None, VSlice (map VUint valueBytes))))
      else
        (case kindOf outType of
           KString \<Rightarrow>
             (case values of
                [] \<Rightarrow> (None, cur)
              | v0 # _ \<Rightarrow> if v0 = [] then (None, cur) else (None, VString v0))
         | KInt s \<Rightarrow>
             (case values of
                [] \<Rightarrow> (None, cur)
              | v0 # _ \<Rightarrow>
                  if v0 = [] then (None, cur)
                  else (case ParseInt v0 of
                          Inl e \<Rightarrow> (Some (Err e), cur)
                        | Inr intVal \<Rightarrow> (None, VInt (SetInt s intVal))))
         | KUint s \<Rightarrow>
             (case values of
                [] \<Rightarrow> (None, cur)
              | v0 # _ \<Rightarrow>
                  if v0 = [] then (None, cur)
                  else (case ParseUint v0 of
                          Inl e \<Rightarrow> (Some (Err e), cur)
                        | Inr uintVal \<Rightarrow> (None, VUint (SetUint s uintVal))))
         | KBool \<Rightarrow>
             (case values of
                [] \<Rightarrow> (None, cur)
              | v0 # _ \<Rightarrow>
                  if v0 = [] then (None, cur)
                  else (case ParseBool v0 of
                          Inl e \<Rightarrow> (Some (Err e), cur)
                        | Inr boolVal \<Rightarrow> (None, VBool boolVal)))
         | KFloat s \<Rightarrow>
             (case values of
                [] \<Rightarrow> (None, cur)
              | v0 # _ \<Rightarrow>
                  if v0 = [] then (None, cur)
                  else (case ParseFloat env v0 of
                          Inl e \<Rightarrow> (Some (Err e), cur)
                        | Inr floatVal \<Rightarrow> (None, VFloat (SetFloat env s floatVal))))
         | KPtr elem \<Rightarrow>
             (case values of
                [] \<Rightarrow> (None, cur)
              | v0 # _ \<Rightarrow>
                  if v0 = [] then (None, cur)
                  else (case bind env elem (zero elem) values of
                          (Some e, _) \<Rightarrow> (Some e, cur)
                        | (None, newValue) \<Rightarrow> (None, VPtr newValue)))
         | KSlice elem \<Rightarrow>
             (case bindElems env elem (replicate (length values) (zero elem)) 0 values of
                (Some e, _) \<Rightarrow> (Some e, cur)
              | (None, sliceValue) \<Rightarrow> (None, VSlice sliceValue))
         | KOther \<Rightarrow> (Some (Err InvalidKind), cur)))"
| "bindElems env elem sliceValue index [] = (None, sliceValue)"
| "bindElems env elem sliceValue index (value # rest) =
     (case bind env elem (zero elem) [value] of
        (Some e, _) \<Rightarrow> (Some e, sliceValue)
      | (None, elemValue) \<Rightarrow>
          bindElems env elem (sliceValue[index := elemValue]) (Suc index) rest)"
  by pat_completeness auto
termination
proof -
  have ptr: "size t < size ty" if "kindOf ty = KPtr t" for ty t
    using that by (induction ty) auto
  have slice: "size t < size ty" if "kindOf ty = KSlice t" for ty t
    using that by (induction ty) auto
  show ?thesis
    by (relation "inv_image (less_than <*lex*> less_than)
         (\<lambda>x. case x of
            Inl (env, ty, cur, vals) \<Rightarrow> (size ty, 0)
          | Inr (env, ty, sl, i, vals) \<Rightarrow> (size ty, Suc (length vals)))")
       (auto dest: ptr slice)
qed

declare bind.simps [simp del]

text \<open>
  The shapes of a coercion target, in the order in which \<^verbatim>\<open>bind\<close> tries its rules:
  custom text-decodable, raw byte sequence, scalar, optional, homogeneous sequence.
  \<open>Unsupported\<close> is a type every call is refused for.
\<close>

datatype shape = Custom | Bytes | Scalar | Optional | Sequence | Unsupported

definition shapeOf :: "gtype \<Rightarrow> shape" where
  "shapeOf ty =
     (if implementsTextUnmarshaler ty then
        (case kindOf ty of KPtr elem \<Rightarrow> Custom | _ \<Rightarrow> Unsupported)
      else if implementsTextUnmarshaler (TPtr ty) then Custom
      else if ty = bytesType then Bytes
      else (case kindOf ty of
              KPtr elem \<Rightarrow> Optional
            | KSlice elem \<Rightarrow> Sequence
            | KOther \<Rightarrow> Unsupported
            | _ \<Rightarrow> Scalar))"

text \<open>The test \<^verbatim>\<open>len(values) == 0 || values[0] == ""\<close>: no raw value, or an empty first one.\<close>

fun noValue :: "string list \<Rightarrow> bool" where
  "noValue [] = True"
| "noValue (v0 # rest) = (v0 = [])"

section \<open>Requests and destinations\<close>

text \<open>
  What the binder reads of \<^verbatim>\<open>*http.Request\<close>: the method, the parsed query
  (\<^verbatim>\<open>req.URL.Query()\<close>, a key that is absent gives no values), the header map under
  its canonical keys, and the body stream (\<open>None\<close> is a nil \<^verbatim>\<open>req.Body\<close>, \<open>Some b\<close> a
  stream that delivers the bytes \<open>b\<close>).
\<close>

record request =
  Method :: string
  Query :: "string \<Rightarrow> string list"
  Header :: "string \<Rightarrow> string list"
  Body :: "string option"

definition MethodGet :: string where
  "MethodGet = ''GET''"

text \<open>
  A field of the destination struct: its type, its three tags (\<^verbatim>\<open>Tag.Get\<close> gives the
  empty string for a tag that is not there) and the value it holds. Fields are exported,
  so \<^verbatim>\<open>reflect\<close> may set them. The argument \<^verbatim>\<open>out interface{}\<close> is a pointer to a
  struct, given by its fields in declaration order, or something that is not a pointer.
\<close>

record field =
  ftype :: gtype
  query_tag :: string
  header_tag :: string
  param_tag :: string
  fval :: gval

datatype out = OutPtr "field list" | OutNotPtr

section \<open>The field extractors\<close>

text \<open>
  \<^verbatim>\<open>bindQuery\<close>, \<^verbatim>\<open>bindHeader\<close> and \<^verbatim>\<open>bindParam\<close> run the same loop over the
  fields; they differ in the tag they read and in where the raw values come from.
  \<open>bindFields tag fetch\<close> is that loop from field \<open>i\<close> on: a field without the tag is
  skipped, the first failure ends the loop and the fields already set stay set.
\<close>

fun bindFields ::
  "env \<Rightarrow> (field \<Rightarrow> string) \<Rightarrow> (string \<Rightarrow> string list) \<Rightarrow> field list \<Rightarrow>
   failure option \<times> field list" where
  "bindFields env tag fetch [] = (None, [])"
| "bindFields env tag fetch (f # fs) =
     (if tag f = [] then
        (case bindFields env tag fetch fs of (r, fs') \<Rightarrow> (r, f # fs'))
      else
        (case bind env (ftype f) (fval f) (fetch (tag f)) of
           (Some e, v) \<Rightarrow> (Some e, f\<lparr>fval := v\<rparr> # fs)
         | (None, v) \<Rightarrow>
             (case bindFields env tag fetch fs of (r, fs') \<Rightarrow> (r, f\<lparr>fval := v\<rparr> # fs'))))"

definition bindQuery :: "env \<Rightarrow> request \<Rightarrow> out \<Rightarrow> failure option \<times> out" where
  "bindQuery env req outPtr =
     (case outPtr of
        OutNotPtr \<Rightarrow> (Some (Err OutNotPointer), outPtr)
      | OutPtr fs \<Rightarrow>
          (case bindFields env query_tag (\<lambda>queryTag. Query req queryTag) fs of
             (r, fs') \<Rightarrow> (r, OutPtr fs')))"

definition bindHeader :: "env \<Rightarrow> request \<Rightarrow> out \<Rightarrow> failure option \<times> out" where
  "bindHeader env req outPtr =
     (case outPtr of
        OutNotPtr \<Rightarrow> (Some (Err OutNotPointer), outPtr)
      | OutPtr fs \<Rightarrow>
          (case bindFields env header_tag
                  (\<lambda>headerTag. Header req (CanonicalMIMEHeaderKey env headerTag)) fs of
             (r, fs') \<Rightarrow> (r, OutPtr fs')))"

type_synonym ParamExtractor = "request \<Rightarrow> string \<Rightarrow> string"

definition bindParam ::
  "env \<Rightarrow> request \<Rightarrow> ParamExtractor \<Rightarrow> out \<Rightarrow> failure option \<times> out" where
  "bindParam env req paramExtractor outPtr =
     (case outPtr of
        OutNotPtr \<Rightarrow> (Some (Err OutNotPointer), outPtr)
      | OutPtr fs \<Rightarrow>
          (case bindFields env param_tag (\<lambda>paramTag. [paramExtractor req paramTag]) fs of
             (r, fs') \<Rightarrow> (r, OutPtr fs')))"

section \<open>Body decoders\<close>

text \<open>
  The interface \<^verbatim>\<open>BodyDecoder\<close>: \<^verbatim>\<open>Match\<close> looks at the request, \<^verbatim>\<open>DecodeBody\<close> reads the
  stream into the destination and returns its error; what it wrote before an error stays.
\<close>

record decoder =
  Match :: "request \<Rightarrow> bool"
  DecodeBody :: "string \<Rightarrow> out \<Rightarrow> error option \<times> out"

text \<open>\<^verbatim>\<open>req.Header.Get(key)\<close>: the first value under the canonical key, or the empty string.\<close>

definition HeaderGet :: "env \<Rightarrow> request \<Rightarrow> string \<Rightarrow> string" where
  "HeaderGet env req key =
     (case Header req (CanonicalMIMEHeaderKey env key) of [] \<Rightarrow> [] | v # _ \<Rightarrow> v)"

text \<open>\<^verbatim>\<open>JSONBodyDecoder\<close>; \<open>jsonDecode\<close> is \<^verbatim>\<open>json.NewDecoder(body).Decode(out)\<close>.\<close>

definition JSONBodyDecoder ::
  "env \<Rightarrow> (string \<Rightarrow> out \<Rightarrow> error option \<times> out) \<Rightarrow> decoder" where
  "JSONBodyDecoder env jsonDecode =
     \<lparr> Match = (\<lambda>req.
          case ParseMediaType env (HeaderGet env req ''content-type'') of
            (mediaType, Some err) \<Rightarrow> False
          | (mediaType, None) \<Rightarrow> mediaType = ''application/json''),
       DecodeBody = jsonDecode \<rparr>"

text \<open>
  \<^verbatim>\<open>BindJSONBody\<close>, the stage of the compositional variant. It drops the error of
  \<^verbatim>\<open>mime.ParseMediaType\<close> and compares the media type returned with it. The decoder
  reads a nil body only when it decodes, which is a nil dereference.
\<close>

definition BindJSONBody ::
  "env \<Rightarrow> (string \<Rightarrow> out \<Rightarrow> error option \<times> out) \<Rightarrow> request \<Rightarrow> out \<Rightarrow> failure option \<times> out" where
  "BindJSONBody env jsonDecode req outPtr =
     (if Method req = MethodGet then (None, outPtr)
      else
        (let mediaType = fst (ParseMediaType env (HeaderGet env req ''content-type''))
         in if mediaType \<noteq> ''application/json'' then (None, outPtr)
            else
              (case Body req of
                 None \<Rightarrow> (Some (Panic NilDereference), outPtr)
               | Some body \<Rightarrow>
                   (case jsonDecode body outPtr of
                      (Some err, out') \<Rightarrow> (Some (Err err), out')
                    | (None, out') \<Rightarrow> (None, out')))))"

section \<open>The configurable binder\<close>

type_synonym Validator = "out \<Rightarrow> error option \<times> out"

record bindOptions =
  paramExtractor :: "ParamExtractor option"
  validator :: "Validator option"
  bodyDecoders :: "decoder list"

type_synonym Option = "bindOptions \<Rightarrow> bindOptions"

definition WithParamExtractor :: "ParamExtractor \<Rightarrow> Option" where
  "WithParamExtractor pe = (\<lambda>options. options\<lparr>paramExtractor := Some pe\<rparr>)"

definition WithValidator :: "Validator \<Rightarrow> Option" where
  "WithValidator v = (\<lambda>options. options\<lparr>validator := Some v\<rparr>)"

definition WithBodyDecoder :: "decoder \<Rightarrow> Option" where
  "WithBodyDecoder d = (\<lambda>options. options\<lparr>bodyDecoders := bodyDecoders options @ [d]\<rparr>)"

text \<open>\<^verbatim>\<open>NewBinder\<close>: the options applied, in order, to the zero \<^verbatim>\<open>bindOptions\<close>.\<close>

definition NewBinder :: "Option list \<Rightarrow> bindOptions" where
  "NewBinder options =
     foldl (\<lambda>b option. option b)
       \<lparr>paramExtractor = None, validator = None, bodyDecoders = []\<rparr> options"

text \<open>
  The loop over \<^verbatim>\<open>binder.options.bodyDecoders\<close> in \<^verbatim>\<open>BindRequest\<close>: \<^verbatim>\<open>continue\<close> on
  a decoder that does not match, \<^verbatim>\<open>return err\<close> when the decoder fails, \<^verbatim>\<open>break\<close>
  after it succeeds.
\<close>

fun decodeLoop :: "decoder list \<Rightarrow> request \<Rightarrow> string \<Rightarrow> out \<Rightarrow> error option \<times> out" where
  "decodeLoop [] req body outv = (None, outv)"
| "decodeLoop (d # ds) req body outv =
     (if \<not> Match d req then decodeLoop ds req body outv
      else (case DecodeBody d body outv of
              (Some err, out') \<Rightarrow> (Some err, out')
            | (None, out') \<Rightarrow> (None, out')))"

text \<open>Lines 262 to 282 of \<^verbatim>\<open>BindRequest\<close>: what follows the body block.\<close>

definition bindRest :: "env \<Rightarrow> bindOptions \<Rightarrow> request \<Rightarrow> out \<Rightarrow> failure option \<times> out" where
  "bindRest env options req outv =
     (case bindQuery env req outv of
        (Some err, o1) \<Rightarrow> (Some err, o1)
      | (None, o1) \<Rightarrow>
     (case bindHeader env req o1 of
        (Some err, o2) \<Rightarrow> (Some err, o2)
      | (None, o2) \<Rightarrow>
     (case (case paramExtractor options of
              None \<Rightarrow> (None, o2)
            | Some pe \<Rightarrow> bindParam env req pe o2) of
        (Some err, o3) \<Rightarrow> (Some err, o3)
      | (None, o3) \<Rightarrow>
     (case validator options of
        None \<Rightarrow> (None, o3)
      | Some v \<Rightarrow>
          (case v o3 of
             (Some err, o4) \<Rightarrow> (Some (Err err), o4)
           | (None, o4) \<Rightarrow> (None, o4))))))"

text \<open>
  The outcome of a call: the error returned (or the panic that ended the call), the
  destination as the call left it, and whether the request body was closed.
\<close>

record outcome =
  ret :: "failure option"
  dest :: out
  body_closed :: bool

text \<open>
  \<^verbatim>\<open>Binder.BindRequest\<close>. The statement \<^verbatim>\<open>defer req.Body.Close()\<close> evaluates the method
  value at once: with a nil \<^verbatim>\<open>req.Body\<close> that is a nil dereference, before any decoder
  is looked at. With a body, the deferred call closes it however the function ends.
\<close>

definition BindRequest :: "env \<Rightarrow> bindOptions \<Rightarrow> request \<Rightarrow> out \<Rightarrow> outcome" where
  "BindRequest env options req outv =
     (if Method req \<noteq> MethodGet then
        (case Body req of
           None \<Rightarrow> \<lparr>ret = Some (Panic NilDereference), dest = outv, body_closed = False\<rparr>
         | Some body \<Rightarrow>
             (case decodeLoop (bodyDecoders options) req body outv of
                (Some err, out') \<Rightarrow> \<lparr>ret = Some (Err err), dest = out', body_closed = True\<rparr>
              | (None, out') \<Rightarrow>
                  (case bindRest env options req out' of
                     (r, out'') \<Rightarrow> \<lparr>ret = r, dest = out'', body_closed = True\<rparr>)))
      else
        (case bindRest env options req outv of
           (r, out'') \<Rightarrow> \<lparr>ret = r, dest = out'', body_closed = False\<rparr>))"

section \<open>Stages and their composition\<close>

text \<open>A \<^verbatim>\<open>BindFunc\<close>, and \<^verbatim>\<open>Compose\<close>: the stages in order, stopping at the first failure.\<close>

type_synonym BindFunc = "request \<Rightarrow> out \<Rightarrow> failure option \<times> out"

fun Compose :: "BindFunc list \<Rightarrow> BindFunc" where
  "Compose [] req outPtr = (None, outPtr)"
| "Compose (fn # fns) req outPtr =
     (case fn req outPtr of
        (Some err, out') \<Rightarrow> (Some err, out')
      | (None, out') \<Rightarrow> Compose fns req out')"

text \<open>The stages of \<^verbatim>\<open>BindRequest\<close>, each as a \<^verbatim>\<open>BindFunc\<close>.\<close>

definition bodyStage :: "bindOptions \<Rightarrow> BindFunc" where
  "bodyStage options req outv =
     (if Method req \<noteq> MethodGet then
        (case Body req of
           None \<Rightarrow> (Some (Panic NilDereference), outv)
         | Some body \<Rightarrow>
             (case decodeLoop (bodyDecoders options) req body outv of
                (Some err, out') \<Rightarrow> (Some (Err err), out')
              | (None, out') \<Rightarrow> (None, out')))
      else (None, outv))"

definition paramStage :: "env \<Rightarrow> bindOptions \<Rightarrow> BindFunc list" where
  "paramStage env options =
     (case paramExtractor options of
        None \<Rightarrow> []
      | Some pe \<Rightarrow> [\<lambda>req outv. bindParam env req pe outv])"

definition validatorStage :: "bindOptions \<Rightarrow> BindFunc list" where
  "validatorStage options =
     (case validator options of
        None \<Rightarrow> []
      | Some v \<Rightarrow>
          [\<lambda>req outv. case v outv of
                        (Some err, out') \<Rightarrow> (Some (Err err), out')
                      | (None, out') \<Rightarrow> (None, out')])"

text \<open>The order of the stages as the code runs them.\<close>

definition stagesInCodeOrder :: "env \<Rightarrow> bindOptions \<Rightarrow> BindFunc list" where
  "stagesInCodeOrder env options =
     [bodyStage options, bindQuery env, bindHeader env]
       @ paramStage env options @ validatorStage options"

text \<open>
  The order in the words of the specification: body decode, header extraction, query
  extraction, route-parameter extraction, validation.
\<close>

definition stagesInSpecOrder :: "env \<Rightarrow> bindOptions \<Rightarrow> BindFunc list" where
  "stagesInSpecOrder env options =
     [bodyStage options, bindHeader env, bindQuery env]
       @ paramStage env options @ validatorStage options"

section \<open>Concrete collaborators and inputs\<close>

text \<open>
  An environment for running the model: no float parser, base64 on the tokens the
  repository's tests send, the hexadecimal \<^verbatim>\<open>UnmarshalText\<close> of the tests' \<^verbatim>\<open>HexInt64\<close> on
  two tokens, the canonical form of the one header key used below, and a media type
  parser for bare media types and for one value with an invalid parameter.
\<close>

definition testEnv :: env where
  "testEnv =
     \<lparr> ParseFloat = (\<lambda>s. Inl (ErrSyntax s)),
       float32 = (\<lambda>x. x),
       DecodeString = (\<lambda>s. if s = [] then Inr []
                           else if s = ''YWJj'' then Inr [97, 98, 99]
                           else Inl (External ''illegal base64 data'')),
       UnmarshalText = (\<lambda>t s. if s = ''aa'' then Inr (VInt 170)
                              else if s = ''bb'' then Inr (VInt 187)
                              else Inl (External ''invalid syntax'')),
       CanonicalMIMEHeaderKey = (\<lambda>k. if k = ''content-type'' then ''Content-Type'' else k),
       ParseMediaType = (\<lambda>s. if s = [] then ([], Some (External ''mime: no media type''))
                             else if s = ''application/json; charset''
                               then (''application/json'',
                                     Some (External ''mime: invalid media parameter''))
                             else (s, None)) \<rparr>"

definition plainField :: "gtype \<Rightarrow> gval \<Rightarrow> field" where
  "plainField t v = \<lparr>ftype = t, query_tag = [], header_tag = [], param_tag = [], fval = v\<rparr>"

text \<open>\<^verbatim>\<open>Q string `query:"q"`\<close> and \<^verbatim>\<open>Binary []byte `query:"binary_val"`\<close>, as in the tests.\<close>

definition qField :: field where
  "qField = (plainField TString (VString []))\<lparr>query_tag := ''q''\<rparr>"

definition binaryField :: field where
  "binaryField = (plainField bytesType VNilSlice)\<lparr>query_tag := ''binary_val''\<rparr>"

text \<open>\<^verbatim>\<open>GET /people?q=a\<close>, built with a nil body as the tests build it.\<close>

definition getRequest :: request where
  "getRequest =
     \<lparr>Method = ''GET'', Query = (\<lambda>k. if k = ''q'' then [''a''] else []),
      Header = (\<lambda>k. []), Body = None\<rparr>"

text \<open>A field bound from the query key \<^verbatim>\<open>v\<close> and from the header \<^verbatim>\<open>V\<close>, and a request
  that carries both.\<close>

definition bothField :: field where
  "bothField = (plainField TString (VString []))\<lparr>query_tag := ''v'', header_tag := ''V''\<rparr>"

definition bothRequest :: request where
  "bothRequest =
     \<lparr>Method = ''GET'', Query = (\<lambda>k. if k = ''v'' then [''from-query''] else []),
      Header = (\<lambda>k. if k = ''V'' then [''from-header''] else []), Body = None\<rparr>"

text \<open>
  A structured decoder for running the model: it accepts one document and stores
  \<^verbatim>\<open>bar\<close> in the first field; any other body is an error. \<open>xmlDecoder\<close> matches
  \<^verbatim>\<open>application/xml\<close> only and would wipe the destination if it ran.
\<close>

definition testDecode :: "string \<Rightarrow> out \<Rightarrow> error option \<times> out" where
  "testDecode body outv =
     (if body = ''{foo:bar}'' then
        (case outv of
           OutPtr (f # fs) \<Rightarrow> (None, OutPtr (f\<lparr>fval := VString ''bar''\<rparr> # fs))
         | _ \<Rightarrow> (Some (External ''cannot unmarshal''), outv))
      else (Some (External ''invalid character''), outv))"

definition xmlDecoder :: decoder where
  "xmlDecoder =
     \<lparr> Match = (\<lambda>req. HeaderGet testEnv req ''content-type'' = ''application/xml''),
       DecodeBody = (\<lambda>body outv. (None, OutPtr [])) \<rparr>"

definition jsonRequest :: "string \<Rightarrow> string option \<Rightarrow> request" where
  "jsonRequest m b =
     \<lparr>Method = m, Query = (\<lambda>k. if k = ''q'' then [''a''] else []),
      Header = (\<lambda>k. if k = ''Content-Type'' then [''application/json''] else []), Body = b\<rparr>"

definition fooField :: field where
  "fooField = plainField TString (VString [])"

text \<open>The tests' \<^verbatim>\<open>HexInt64\<close>, with \<^verbatim>\<open>UnmarshalText\<close> on the pointer receiver.\<close>

definition HexInt64 :: gtype where
  "HexInt64 = TNamed ''HexInt64'' PointerReceiver (TInt S64)"

section \<open>Facts about the library functions\<close>

lemma SetInt_eq: "SetInt s x = (x + 2 ^ (bits s - 1)) mod 2 ^ bits s - 2 ^ (bits s - 1)"
  by (cases s) (simp_all add: int_word_sint)

lemma SetUint_eq: "SetUint s n = n mod 2 ^ bits s"
  by (cases s) (simp_all add: unat_of_nat)

lemma SetInt_range: "- (2 ^ (bits s - 1)) \<le> SetInt s x \<and> SetInt s x < 2 ^ (bits s - 1)"
proof -
  have b: "(2::int) ^ bits s = 2 * 2 ^ (bits s - 1)"
    by (cases s) simp_all
  have "0 \<le> (x + 2 ^ (bits s - 1)) mod 2 ^ bits s"
    and "(x + 2 ^ (bits s - 1)) mod 2 ^ bits s < 2 ^ bits s"
    by simp_all
  then show ?thesis
    unfolding SetInt_eq using b by linarith
qed

lemma SetInt_fits: "- (2 ^ (bits s - 1)) \<le> x \<Longrightarrow> x < 2 ^ (bits s - 1) \<Longrightarrow> SetInt s x = x"
proof -
  assume lo: "- (2 ^ (bits s - 1)) \<le> x" and hi: "x < 2 ^ (bits s - 1)"
  have b: "(2::int) ^ bits s = 2 * 2 ^ (bits s - 1)"
    by (cases s) simp_all
  have "(x + 2 ^ (bits s - 1)) mod 2 ^ bits s = x + 2 ^ (bits s - 1)"
    using lo hi b by (intro mod_pos_pos_trivial) linarith+
  then show ?thesis by (simp add: SetInt_eq)
qed

section \<open>Facts about the coercer\<close>

lemma shape_Scalar:
  "shapeOf ty = Scalar \<Longrightarrow>
     \<not> implementsTextUnmarshaler ty \<and> \<not> implementsTextUnmarshaler (TPtr ty) \<and> ty \<noteq> bytesType \<and>
     kindOf ty \<in> {KString, KBool} \<union> range KInt \<union> range KUint \<union> range KFloat"
  by (auto simp: shapeOf_def split: if_splits kind.splits)

lemma shape_Sequence:
  "shapeOf ty = Sequence \<Longrightarrow>
     \<not> implementsTextUnmarshaler ty \<and> \<not> implementsTextUnmarshaler (TPtr ty) \<and> ty \<noteq> bytesType \<and>
     (\<exists>elem. kindOf ty = KSlice elem)"
  by (auto simp: shapeOf_def split: if_splits kind.splits)

text \<open>With the first three rules out of the way, \<^verbatim>\<open>bind\<close> is its switch on the kind.\<close>

lemma bind_plain:
  assumes "\<not> implementsTextUnmarshaler ty" "\<not> implementsTextUnmarshaler (TPtr ty)" "ty \<noteq> bytesType"
  shows "kindOf ty = KSlice elem \<Longrightarrow> bind env ty cur values =
           (case bindElems env elem (replicate (length values) (zero elem)) 0 values of
              (Some e, _) \<Rightarrow> (Some e, cur)
            | (None, sliceValue) \<Rightarrow> (None, VSlice sliceValue))"
    and "kindOf ty = KInt s \<Longrightarrow> bind env ty cur values =
           (case values of
                [] \<Rightarrow> (None, cur)
              | v0 # _ \<Rightarrow>
                  if v0 = [] then (None, cur)
                  else (case ParseInt v0 of
                          Inl e \<Rightarrow> (Some (Err e), cur)
                        | Inr intVal \<Rightarrow> (None, VInt (SetInt s intVal))))"
    and "kindOf ty = KUint s \<Longrightarrow> bind env ty cur values =
           (case values of
                [] \<Rightarrow> (None, cur)
              | v0 # _ \<Rightarrow>
                  if v0 = [] then (None, cur)
                  else (case ParseUint v0 of
                          Inl e \<Rightarrow> (Some (Err e), cur)
                        | Inr uintVal \<Rightarrow> (None, VUint (SetUint s uintVal))))"
  using assms by (simp_all add: bind.simps [of env ty])

lemma bind_scalar_noValue:
  assumes "shapeOf ty = Scalar" "noValue values"
  shows "bind env ty cur values = (None, cur)"
proof -
  from shape_Scalar [OF assms(1)] have
    a: "\<not> implementsTextUnmarshaler ty" "\<not> implementsTextUnmarshaler (TPtr ty)" "ty \<noteq> bytesType"
    and k: "kindOf ty \<in> {KString, KBool} \<union> range KInt \<union> range KUint \<union> range KFloat"
    by blast+
  from assms(2) show ?thesis
    using a k by (cases "values") (auto simp: bind.simps [of env ty])
qed

text \<open>Every rule of \<^verbatim>\<open>bind\<close> writes the slot last: a failed call leaves it as it was.\<close>

lemma bind_failure_untouched:
  "fst (bind env ty cur values) \<noteq> None \<Longrightarrow> snd (bind env ty cur values) = cur"
  by (subst (asm) bind.simps, subst bind.simps)
     (auto split: if_splits kind.splits list.splits sum.splits prod.splits option.splits)

text \<open>Of the supported shapes, only the raw byte sequence fails on a key that is absent.\<close>

lemma bind_absent_key:
  "shapeOf ty \<in> {Custom, Scalar, Optional, Sequence} \<Longrightarrow> fst (bind env ty cur []) = None"
  by (auto simp: shapeOf_def bind.simps [of env ty] split: if_splits kind.splits)

lemma bind_bytes_absent_key:
  "shapeOf ty = Bytes \<Longrightarrow> bind env ty cur [] = (Some (Panic IndexOutOfRange), cur)"
  by (auto simp: shapeOf_def bind.simps [of env ty] split: if_splits kind.splits)

text \<open>The loop of the slice case stops at the first element that fails.\<close>

lemma bindElems_first_failure:
  "i < length vals \<Longrightarrow>
   (\<forall>k<i. fst (bind env elem (zero elem) [vals ! k]) = None) \<Longrightarrow>
   fst (bind env elem (zero elem) [vals ! i]) = Some e \<Longrightarrow>
   fst (bindElems env elem sv idx vals) = Some e"
proof (induction vals arbitrary: i sv idx)
  case Nil
  then show ?case by simp
next
  case (Cons v vs)
  show ?case
  proof (cases i)
    case 0
    with Cons.prems show ?thesis by (auto split: prod.splits option.splits)
  next
    case (Suc j)
    from Cons.prems Suc have v: "fst (bind env elem (zero elem) [v]) = None" by auto
    from Cons.prems Suc have j: "j < length vs" by simp
    from Cons.prems Suc have e: "\<forall>k<j. fst (bind env elem (zero elem) [vs ! k]) = None" by auto
    from Cons.prems Suc have f: "fst (bind env elem (zero elem) [vs ! j]) = Some e" by simp
    from v obtain w where w: "bind env elem (zero elem) [v] = (None, w)"
      by (cases "bind env elem (zero elem) [v]") auto
    show ?thesis using Cons.IH [OF j e f] w by simp
  qed
qed

text \<open>If some element fails, the loop ends with the failure of the first such element.\<close>

lemma bindElems_some_failure:
  assumes "\<exists>i<length vals. fst (bind env elem (zero elem) [vals ! i]) \<noteq> None"
  shows "\<exists>j<length vals. (\<forall>k<j. fst (bind env elem (zero elem) [vals ! k]) = None) \<and>
           fst (bind env elem (zero elem) [vals ! j]) \<noteq> None \<and>
           fst (bindElems env elem sv idx vals) = fst (bind env elem (zero elem) [vals ! j])"
proof -
  define P where "P i \<longleftrightarrow> i < length vals \<and> fst (bind env elem (zero elem) [vals ! i]) \<noteq> None" for i
  from assms have ex: "\<exists>i. P i" by (auto simp: P_def)
  define j where "j = (LEAST i. P i)"
  from ex have Pj: "P j" unfolding j_def by (rule LeastI_ex)
  have least: "\<not> P k" if "k < j" for k
    using that unfolding j_def by (rule not_less_Least)
  from Pj have jl: "j < length vals" and jf: "fst (bind env elem (zero elem) [vals ! j]) \<noteq> None"
    by (simp_all add: P_def)
  have before: "\<forall>k<j. fst (bind env elem (zero elem) [vals ! k]) = None"
    using least jl by (auto simp: P_def)
  from jf obtain e where e: "fst (bind env elem (zero elem) [vals ! j]) = Some e" by auto
  from bindElems_first_failure [OF jl before e] e jl before jf
  show ?thesis by auto
qed

text \<open>When every element is coerced, the slice holds the coerced elements in order.\<close>

lemma bindElems_success:
  "\<forall>k<length vals. fst (bind env elem (zero elem) [vals ! k]) = None \<Longrightarrow>
   idx + length vals \<le> length sv \<Longrightarrow>
   bindElems env elem sv idx vals =
     (None, take idx sv @ map (\<lambda>v. snd (bind env elem (zero elem) [v])) vals
              @ drop (idx + length vals) sv)"
proof (induction vals arbitrary: sv idx)
  case Nil
  then show ?case by simp
next
  case (Cons v vs)
  from Cons.prems(1) have v: "fst (bind env elem (zero elem) [v]) = None" by auto
  then obtain w where w: "bind env elem (zero elem) [v] = (None, w)"
    by (cases "bind env elem (zero elem) [v]") auto
  from Cons.prems(1) have r: "\<forall>k<length vs. fst (bind env elem (zero elem) [vs ! k]) = None"
    by auto
  from Cons.prems(2) have l: "Suc idx + length vs \<le> length (sv[idx := w])" by simp
  from Cons.prems(2) have i: "idx < length sv" by simp
  have "take (Suc idx) (sv[idx := w]) = take idx sv @ [w]"
    using i by (simp add: take_Suc_conv_app_nth)
  with Cons.IH [OF r l] w show ?case by simp
qed

section \<open>Facts about the stages\<close>

lemma decodeLoop_find:
  "decodeLoop ds req body outv =
     (case find (\<lambda>d. Match d req) ds of
        None \<Rightarrow> (None, outv)
      | Some d \<Rightarrow> DecodeBody d body outv)"
  by (induction ds) (auto split: prod.splits option.splits)

text \<open>\<^verbatim>\<open>WithBodyDecoder\<close> appends: the registry lists the decoders in registration order.\<close>

lemma NewBinder_snoc: "NewBinder (os @ [opt]) = opt (NewBinder os)"
  by (simp add: NewBinder_def)

lemma NewBinder_bodyDecoders: "bodyDecoders (NewBinder (map WithBodyDecoder ds)) = ds"
proof (induction ds rule: rev_induct)
  case Nil
  show ?case by (simp add: NewBinder_def)
next
  case (snoc d ds)
  then show ?case by (simp add: NewBinder_snoc WithBodyDecoder_def)
qed

lemma bindRest_decoders:
  "bindRest env (options\<lparr>bodyDecoders := ds\<rparr>) req outv = bindRest env options req outv"
  by (simp add: bindRest_def cong: option.case_cong prod.case_cong)

lemmas run_defs =
  BindRequest_def bindRest_def bindQuery_def bindHeader_def bindParam_def bodyStage_def
  MethodGet_def NewBinder_def WithParamExtractor_def WithBodyDecoder_def testEnv_def
  bind.simps bytesType_def ParseInt_def ParseUint_def HeaderGet_def plainField_def

text \<open>The model on two of the repository's tests.\<close>

lemma TestBindRequestWithParamExtractor:
  "BindRequest testEnv
     (NewBinder [WithParamExtractor (\<lambda>req name. if name = ''person_id'' then ''1'' else [])])
     getRequest
     (OutPtr [qField, (plainField (TInt S64) (VInt 0))\<lparr>param_tag := ''person_id''\<rparr>]) =
   \<lparr>ret = None,
    dest = OutPtr [qField\<lparr>fval := VString ''a''\<rparr>,
                   (plainField (TInt S64) (VInt 1))\<lparr>param_tag := ''person_id''\<rparr>],
    body_closed = False\<rparr>"
  by (simp add: run_defs qField_def getRequest_def)

lemma TestBindRequestWithSlice:
  "BindRequest testEnv (NewBinder [])
     \<lparr>Method = ''GET'', Query = (\<lambda>k. if k = ''int_slice'' then [''aa'', ''bb''] else []),
      Header = (\<lambda>k. []), Body = None\<rparr>
     (OutPtr [(plainField (TSlice HexInt64) VNilSlice)\<lparr>query_tag := ''int_slice''\<rparr>,
              (plainField (TSlice (TPtr HexInt64)) VNilSlice)\<lparr>query_tag := ''int_ptr_slice''\<rparr>,
              (plainField (TSlice TString) VNilSlice)\<lparr>query_tag := ''string_slice''\<rparr>]) =
   \<lparr>ret = None,
    dest = OutPtr [(plainField (TSlice HexInt64) (VSlice [VInt 170, VInt 187]))
                     \<lparr>query_tag := ''int_slice''\<rparr>,
                   (plainField (TSlice (TPtr HexInt64)) (VSlice []))
                     \<lparr>query_tag := ''int_ptr_slice''\<rparr>,
                   (plainField (TSlice TString) (VSlice []))\<lparr>query_tag := ''string_slice''\<rparr>],
    body_closed = False\<rparr>"
  by (simp add: run_defs HexInt64_def)

section \<open>The claims\<close>

text \<open>
  Claim C1, as the code has it. \<^verbatim>\<open>BindRequest\<close> runs body decoding, then query
  extraction, then header extraction, then route-parameter extraction when a parameter
  source is configured, then validation when a validator is configured: the error it
  returns and the destination it leaves are those of composing these stages in this
  order, stopping at the first failure. The claim puts header extraction before query
  extraction, and that order gives another result.
\<close>

theorem C1_stage_order:
  "(ret (BindRequest env options req outv), dest (BindRequest env options req outv)) =
     Compose (stagesInCodeOrder env options) req outv"
  by (simp add: BindRequest_def stagesInCodeOrder_def bodyStage_def bindRest_def
        paramStage_def validatorStage_def
      split: option.splits prod.splits)

text \<open>
  A field tagged for both stages keeps the value of the stage that ran last: the header's
  in the code, the query's in the order the claim gives.
\<close>

theorem C1_spec_order_counterexample:
  "dest (BindRequest testEnv (NewBinder []) bothRequest (OutPtr [bothField])) =
     OutPtr [bothField\<lparr>fval := VString ''from-header''\<rparr>] \<and>
   Compose (stagesInSpecOrder testEnv (NewBinder [])) bothRequest (OutPtr [bothField]) =
     (None, OutPtr [bothField\<lparr>fval := VString ''from-query''\<rparr>]) \<and>
   (ret (BindRequest testEnv (NewBinder []) bothRequest (OutPtr [bothField])),
    dest (BindRequest testEnv (NewBinder []) bothRequest (OutPtr [bothField]))) \<noteq>
     Compose (stagesInSpecOrder testEnv (NewBinder [])) bothRequest (OutPtr [bothField])"
  by (simp add: run_defs stagesInSpecOrder_def paramStage_def validatorStage_def
        bothRequest_def bothField_def)

text \<open>
  Claim C2 at an input where the code fails it. The destination of the repository's basic
  test, with the query key \<^verbatim>\<open>binary_val\<close> left out of the request: the \<^verbatim>\<open>[]byte\<close> rule
  reads \<^verbatim>\<open>values[0]\<close> of the empty value sequence, and the call ends in an
  index-out-of-range panic instead of returning.
\<close>

theorem C2_absent_bytes_key_panics:
  "BindRequest testEnv (NewBinder []) getRequest (OutPtr [qField, binaryField]) =
     \<lparr>ret = Some (Panic IndexOutOfRange),
      dest = OutPtr [qField\<lparr>fval := VString ''a''\<rparr>, binaryField],
      body_closed = False\<rparr>"
  by (simp add: run_defs qField_def binaryField_def getRequest_def)

text \<open>
  Claim C3. Coerced from no raw values, a homogeneous sequence becomes the non-nil empty
  slice, whatever it held; a scalar, an optional and a custom text-decodable slot keep
  what they held. In a stage, the same holds of a tagged field whose key has no values.
\<close>

theorem C3_empty_values_touch_only_sequences:
  "(shapeOf ty = Sequence \<longrightarrow> bind env ty cur [] = (None, VSlice [])) \<and>
   (shapeOf ty \<in> {Scalar, Optional, Custom} \<longrightarrow> bind env ty cur [] = (None, cur)) \<and>
   (tag f \<noteq> [] \<and> fetch (tag f) = [] \<and> shapeOf (ftype f) = Sequence \<longrightarrow>
      bindFields env tag fetch (f # fs) =
        (case bindFields env tag fetch fs of (r, fs') \<Rightarrow> (r, f\<lparr>fval := VSlice []\<rparr> # fs'))) \<and>
   (tag f \<noteq> [] \<and> fetch (tag f) = [] \<and> shapeOf (ftype f) \<in> {Scalar, Optional, Custom} \<longrightarrow>
      bindFields env tag fetch (f # fs) =
        (case bindFields env tag fetch fs of (r, fs') \<Rightarrow> (r, f # fs')))"
proof -
  have s: "bind env t c [] = (None, VSlice [])" if "shapeOf t = Sequence" for t c
    using that by (auto simp: shapeOf_def bind.simps [of env t] split: if_splits kind.splits)
  have u: "bind env t c [] = (None, c)" if "shapeOf t \<in> {Scalar, Optional, Custom}" for t c
    using that by (auto simp: shapeOf_def bind.simps [of env t] split: if_splits kind.splits)
  show ?thesis
    using s [of ty cur] u [of ty cur] s [of "ftype f" "fval f"] u [of "ftype f" "fval f"]
    by (simp split: prod.splits)
qed

theorem C3_witness:
  "bind testEnv (TSlice TString) VNilSlice [] = (None, VSlice []) \<and>
   bind testEnv (TPtr TString) VNil [] = (None, VNil) \<and>
   bindFields testEnv query_tag (Query getRequest)
       [(plainField (TSlice TString) VNilSlice)\<lparr>query_tag := ''string_slice''\<rparr>] =
     (None, [(plainField (TSlice TString) (VSlice []))\<lparr>query_tag := ''string_slice''\<rparr>]) \<and>
   bindFields testEnv query_tag (Query getRequest)
       [(plainField (TInt S64) (VInt 5))\<lparr>query_tag := ''n''\<rparr>] =
     (None, [(plainField (TInt S64) (VInt 5))\<lparr>query_tag := ''n''\<rparr>])"
proof -
  have s: "shapeOf (TSlice TString) = Sequence" "shapeOf (TPtr TString) \<in> {Scalar, Optional, Custom}"
    "shapeOf (TInt S64) \<in> {Scalar, Optional, Custom}"
    by (simp_all add: shapeOf_def bytesType_def)
  show ?thesis
    using s
      C3_empty_values_touch_only_sequences
        [where ty = "TSlice TString" and env = testEnv and cur = VNilSlice and tag = query_tag
           and f = "(plainField (TSlice TString) VNilSlice)\<lparr>query_tag := ''string_slice''\<rparr>"
           and fetch = "Query getRequest" and fs = "[]"]
      C3_empty_values_touch_only_sequences
        [where ty = "TPtr TString" and env = testEnv and cur = VNil and tag = query_tag
           and f = "(plainField (TInt S64) (VInt 5))\<lparr>query_tag := ''n''\<rparr>"
           and fetch = "Query getRequest" and fs = "[]"]
    by (simp add: plainField_def getRequest_def)
qed

text \<open>
  Claim C4. When the loop of the slice case reaches an element whose coercion fails (the
  elements before it were coerced), the call returns that element's error and the slot
  holds what it held before: the slice under construction is dropped. So whenever the
  coercion of some element of the raw values fails, the call returns the failure of one
  of them and the slot is unchanged.
\<close>

theorem C4_sequence_failure_is_atomic:
  assumes "shapeOf ty = Sequence" and "kindOf ty = KSlice elem"
  shows "(i < length vals \<and>
          (\<forall>k<i. fst (bind env elem (zero elem) [vals ! k]) = None) \<and>
          fst (bind env elem (zero elem) [vals ! i]) = Some e \<longrightarrow>
            bind env ty cur vals = (Some e, cur)) \<and>
         ((\<exists>i<length vals. fst (bind env elem (zero elem) [vals ! i]) \<noteq> None) \<longrightarrow>
            (\<exists>j<length vals.
               fst (bind env elem (zero elem) [vals ! j]) \<noteq> None \<and>
               bind env ty cur vals = (fst (bind env elem (zero elem) [vals ! j]), cur)))"
proof -
  from shape_Sequence [OF assms(1)] have
    a: "\<not> implementsTextUnmarshaler ty" "\<not> implementsTextUnmarshaler (TPtr ty)" "ty \<noteq> bytesType"
    by blast+
  let ?loop = "bindElems env elem (replicate (length vals) (zero elem)) 0 vals"
  have fail: "bind env ty cur vals = (Some e', cur)" if "fst ?loop = Some e'" for e'
    using that by (cases ?loop) (simp add: bind_plain(1) [OF a assms(2)])
  have 1: "bind env ty cur vals = (Some e, cur)"
    if "i < length vals" "\<forall>k<i. fst (bind env elem (zero elem) [vals ! k]) = None"
       "fst (bind env elem (zero elem) [vals ! i]) = Some e"
    using bindElems_first_failure [OF that] by (rule fail)
  have 2: "\<exists>j<length vals.
               fst (bind env elem (zero elem) [vals ! j]) \<noteq> None \<and>
               bind env ty cur vals = (fst (bind env elem (zero elem) [vals ! j]), cur)"
    if "\<exists>i<length vals. fst (bind env elem (zero elem) [vals ! i]) \<noteq> None"
  proof -
    from bindElems_some_failure [OF that, of "replicate (length vals) (zero elem)" 0]
    obtain j where j: "j < length vals"
      "fst (bind env elem (zero elem) [vals ! j]) \<noteq> None"
      "fst ?loop = fst (bind env elem (zero elem) [vals ! j])"
      by blast
    from j(2) obtain e' where e': "fst (bind env elem (zero elem) [vals ! j]) = Some e'" by auto
    with j(3) have "bind env ty cur vals = (Some e', cur)" by (simp add: fail)
    with j(1,2) e' show ?thesis by auto
  qed
  from 1 2 show ?thesis by blast
qed

theorem C4_witness:
  "bind testEnv (TSlice (TInt S8)) (VSlice [VInt 9]) [''1'', ''x'', ''3''] =
     (Some (Err (ErrSyntax ''x'')), VSlice [VInt 9]) \<and>
   (\<exists>j<length [''1'', ''x'', ''y''].
      fst (bind testEnv (TInt S8) (zero (TInt S8)) [[''1'', ''x'', ''y''] ! j]) \<noteq> None \<and>
      bind testEnv (TSlice (TInt S8)) VNilSlice [''1'', ''x'', ''y''] =
        (fst (bind testEnv (TInt S8) (zero (TInt S8)) [[''1'', ''x'', ''y''] ! j]), VNilSlice))"
proof -
  have s: "shapeOf (TSlice (TInt S8)) = Sequence"
    by (simp add: shapeOf_def bytesType_def)
  have k: "kindOf (TSlice (TInt S8)) = KSlice (TInt S8)" by simp
  have i: "1 < length [''1'', ''x'', ''3'']" by simp
  have b: "\<forall>k<1. fst (bind testEnv (TInt S8) (zero (TInt S8)) [[''1'', ''x'', ''3''] ! k]) = None"
    by (simp add: bind.simps bytesType_def ParseInt_def ParseUint_def)
  have f: "fst (bind testEnv (TInt S8) (zero (TInt S8)) [[''1'', ''x'', ''3''] ! 1])
             = Some (Err (ErrSyntax ''x''))"
    by (simp add: bind.simps bytesType_def ParseInt_def ParseUint_def)
  have g: "\<exists>i<length [''1'', ''x'', ''y''].
             fst (bind testEnv (TInt S8) (zero (TInt S8)) [[''1'', ''x'', ''y''] ! i]) \<noteq> None"
    by (intro exI [of _ 2]) (simp add: bind.simps bytesType_def ParseInt_def ParseUint_def)
  note c = C4_sequence_failure_is_atomic [OF s k, where env = testEnv and i = 1
             and e = "Err (ErrSyntax ''x'')"]
  from c [where cur = "VSlice [VInt 9]" and vals = "[''1'', ''x'', ''3'']", THEN conjunct1]
    i b f
  have 1: "bind testEnv (TSlice (TInt S8)) (VSlice [VInt 9]) [''1'', ''x'', ''3''] =
     (Some (Err (ErrSyntax ''x'')), VSlice [VInt 9])"
    by blast
  from c [where cur = VNilSlice and vals = "[''1'', ''x'', ''y'']", THEN conjunct2] g
  have 2: "\<exists>j<length [''1'', ''x'', ''y''].
      fst (bind testEnv (TInt S8) (zero (TInt S8)) [[''1'', ''x'', ''y''] ! j]) \<noteq> None \<and>
      bind testEnv (TSlice (TInt S8)) VNilSlice [''1'', ''x'', ''y''] =
        (fst (bind testEnv (TInt S8) (zero (TInt S8)) [[''1'', ''x'', ''y''] ! j]), VNilSlice)"
    by blast
  from 1 2 show ?thesis by blast
qed

text \<open>
  Claim C5. A scalar slot (string, signed or unsigned integer, boolean, float) coerced
  from no raw value, or from raw values whose first is the empty string, keeps the value
  it held and the call succeeds.
\<close>

theorem C5_scalar_no_value_untouched:
  "shapeOf ty = Scalar \<Longrightarrow> noValue values \<Longrightarrow> bind env ty cur values = (None, cur)"
  by (rule bind_scalar_noValue)

theorem C5_witness:
  "bind testEnv (TInt S32) (VInt 7) ['''', ''12''] = (None, VInt 7) \<and>
   bind testEnv TBool (zero TBool) [] = (None, VBool False)"
proof -
  have s: "shapeOf (TInt S32) = Scalar" "shapeOf TBool = Scalar"
    by (simp_all add: shapeOf_def bytesType_def)
  have n: "noValue ['''', ''12'']" "noValue []" by simp_all
  show ?thesis
    using C5_scalar_no_value_untouched [OF s(1) n(1), where env = testEnv and cur = "VInt 7"]
      C5_scalar_no_value_untouched [OF s(2) n(2), where env = testEnv and cur = "zero TBool"]
    by simp
qed

text \<open>
  Claim C6. For a pointer slot: with no raw value, or an empty first one, the slot keeps
  what it held (nil stays nil). Otherwise a fresh zero value of the pointee type is
  coerced from the same raw values (by the pointee's \<^verbatim>\<open>UnmarshalText\<close> when the pointer
  type is custom text-decodable, by \<^verbatim>\<open>bind\<close> otherwise); on success the slot points to
  it, on failure the error is returned and the slot keeps what it held.
\<close>

theorem C6_optional:
  "(noValue values \<longrightarrow> bind env (TPtr elem) cur values = (None, cur)) \<and>
   (\<not> noValue values \<longrightarrow>
      bind env (TPtr elem) cur values =
        (if implementsTextUnmarshaler (TPtr elem) then
           (case UnmarshalText env elem (hd values) of
              Inl e \<Rightarrow> (Some (Err e), cur)
            | Inr v \<Rightarrow> (None, VPtr v))
         else
           (case bind env elem (zero elem) values of
              (Some e, v) \<Rightarrow> (Some e, cur)
            | (None, v) \<Rightarrow> (None, VPtr v))))"
  by (cases "values") (auto simp: bind.simps [of env "TPtr elem"] bytesType_def split: sum.splits)

theorem C6_witness:
  "bind testEnv (TPtr TString) VNil [] = (None, VNil) \<and>
   bind testEnv (TPtr TString) VNil [''bar''] = (None, VPtr (VString ''bar'')) \<and>
   bind testEnv (TPtr (TInt S8)) VNil [''x''] = (Some (Err (ErrSyntax ''x'')), VNil) \<and>
   bind testEnv (TPtr HexInt64) VNil [''bb''] = (None, VPtr (VInt 187))"
proof -
  have n: "noValue []" "\<not> noValue [''bar'']" "\<not> noValue [''x'']" "\<not> noValue [''bb'']"
    by simp_all
  have b: "bind testEnv TString (zero TString) [''bar''] = (None, VString ''bar'')"
    "bind testEnv (TInt S8) (zero (TInt S8)) [''x''] = (Some (Err (ErrSyntax ''x'')), VInt 0)"
    by (simp_all add: bind.simps bytesType_def ParseInt_def ParseUint_def)
  show ?thesis
    using n b
      C6_optional [of "[]" testEnv TString VNil]
      C6_optional [of "[''bar'']" testEnv TString VNil]
      C6_optional [of "[''x'']" testEnv "TInt S8" VNil]
      C6_optional [of "[''bb'']" testEnv HexInt64 VNil]
    by (simp add: HexInt64_def testEnv_def)
qed

text \<open>
  The body step on a request that has a body stream. The registry lists the decoders in
  the order of their registration. The decoder loop runs the first registered decoder
  that matches the request, and no other: no match leaves the destination alone and
  succeeds. For a request that is not a GET and has a body stream, \<^verbatim>\<open>BindRequest\<close>
  returns that decoder's error at once, and goes on to the extraction stages after a
  successful decode or no match.
\<close>

lemma BindRequest_first_matching_decoder:
  "bodyDecoders (NewBinder (map WithBodyDecoder ds)) = ds \<and>
   decodeLoop ds req body outv =
     (case find (\<lambda>d. Match d req) ds of
        None \<Rightarrow> (None, outv)
      | Some d \<Rightarrow> DecodeBody d body outv) \<and>
   (Method req \<noteq> MethodGet \<and> Body req = Some body \<longrightarrow>
    BindRequest env options req outv =
     (case find (\<lambda>d. Match d req) (bodyDecoders options) of
        None \<Rightarrow>
          (case bindRest env options req outv of
             (r, out'') \<Rightarrow> \<lparr>ret = r, dest = out'', body_closed = True\<rparr>)
      | Some d \<Rightarrow>
          (case DecodeBody d body outv of
             (Some err, out') \<Rightarrow> \<lparr>ret = Some (Err err), dest = out', body_closed = True\<rparr>
           | (None, out') \<Rightarrow>
               (case bindRest env options req out' of
                  (r, out'') \<Rightarrow> \<lparr>ret = r, dest = out'', body_closed = True\<rparr>))))"
  by (simp add: BindRequest_def decodeLoop_find NewBinder_bodyDecoders
      split: option.splits prod.splits)

text \<open>Two decoders registered, the first for XML: a JSON body is decoded by the second;
  a malformed body is that decoder's error, and the query stage does not run.\<close>

lemma BindRequest_two_decoders:
  "BindRequest testEnv
      (NewBinder [WithBodyDecoder xmlDecoder, WithBodyDecoder (JSONBodyDecoder testEnv testDecode)])
      (jsonRequest ''POST'' (Some ''{foo:bar}'')) (OutPtr [fooField, qField]) =
     \<lparr>ret = None,
      dest = OutPtr [fooField\<lparr>fval := VString ''bar''\<rparr>, qField\<lparr>fval := VString ''a''\<rparr>],
      body_closed = True\<rparr> \<and>
   BindRequest testEnv
      (NewBinder [WithBodyDecoder xmlDecoder, WithBodyDecoder (JSONBodyDecoder testEnv testDecode)])
      (jsonRequest ''POST'' (Some ''foo'')) (OutPtr [fooField, qField]) =
     \<lparr>ret = Some (Err (External ''invalid character'')),
      dest = OutPtr [fooField, qField],
      body_closed = True\<rparr>"
proof -
  let ?b = "NewBinder [WithBodyDecoder xmlDecoder, WithBodyDecoder (JSONBodyDecoder testEnv testDecode)]"
  have d: "bodyDecoders ?b = [xmlDecoder, JSONBodyDecoder testEnv testDecode]"
    by (simp add: NewBinder_def WithBodyDecoder_def)
  have p: "paramExtractor ?b = None" "validator ?b = None"
    by (simp_all add: NewBinder_def WithBodyDecoder_def)
  have m: "Method (jsonRequest ''POST'' b) \<noteq> MethodGet" "Body (jsonRequest ''POST'' (Some s)) = Some s"
    for b s
    by (simp_all add: jsonRequest_def MethodGet_def)
  have f: "find (\<lambda>d. Match d (jsonRequest ''POST'' b)) (bodyDecoders ?b)
             = Some (JSONBodyDecoder testEnv testDecode)" for b
    unfolding d
    by (simp add: xmlDecoder_def JSONBodyDecoder_def HeaderGet_def testEnv_def jsonRequest_def)
  have r: "bindRest testEnv ?b (jsonRequest ''POST'' b) (OutPtr [fooField\<lparr>fval := VString ''bar''\<rparr>, qField])
             = (None, OutPtr [fooField\<lparr>fval := VString ''bar''\<rparr>, qField\<lparr>fval := VString ''a''\<rparr>])" for b
    by (simp add: bindRest_def p bindQuery_def bindHeader_def fooField_def qField_def plainField_def
          jsonRequest_def bind.simps bytesType_def)
  have t: "DecodeBody (JSONBodyDecoder testEnv testDecode) ''{foo:bar}'' (OutPtr [fooField, qField])
             = (None, OutPtr [fooField\<lparr>fval := VString ''bar''\<rparr>, qField])"
    "DecodeBody (JSONBodyDecoder testEnv testDecode) ''foo'' (OutPtr [fooField, qField])
             = (Some (External ''invalid character''), OutPtr [fooField, qField])"
    by (simp_all add: JSONBodyDecoder_def testDecode_def)
  from BindRequest_first_matching_decoder
         [where ds = "[]" and req = "jsonRequest ''POST'' (Some ''{foo:bar}'')"
            and body = "''{foo:bar}''" and outv = "OutPtr [fooField, qField]"
            and env = testEnv and options = ?b]
  have 1: "BindRequest testEnv ?b (jsonRequest ''POST'' (Some ''{foo:bar}'')) (OutPtr [fooField, qField]) =
     \<lparr>ret = None,
      dest = OutPtr [fooField\<lparr>fval := VString ''bar''\<rparr>, qField\<lparr>fval := VString ''a''\<rparr>],
      body_closed = True\<rparr>"
    by (simp add: m f t r)
  from BindRequest_first_matching_decoder
         [where ds = "[]" and req = "jsonRequest ''POST'' (Some ''foo'')"
            and body = "''foo''" and outv = "OutPtr [fooField, qField]"
            and env = testEnv and options = ?b]
  have 2: "BindRequest testEnv ?b (jsonRequest ''POST'' (Some ''foo'')) (OutPtr [fooField, qField]) =
     \<lparr>ret = Some (Err (External ''invalid character'')),
      dest = OutPtr [fooField, qField],
      body_closed = True\<rparr>"
    by (simp add: m f t)
  from 1 2 show ?thesis by simp
qed

text \<open>
  \<^verbatim>\<open>JSONBodyDecoder.Match\<close> refuses a content type whose parameter is invalid, while
  \<^verbatim>\<open>BindJSONBody\<close> decodes the body of such a request.
\<close>

lemma invalid_media_parameter:
  "\<not> Match (JSONBodyDecoder testEnv testDecode)
       ((jsonRequest ''POST'' (Some ''{foo:bar}''))
          \<lparr>Header := (\<lambda>k. if k = ''Content-Type'' then [''application/json; charset''] else [])\<rparr>) \<and>
   BindJSONBody testEnv testDecode
       ((jsonRequest ''POST'' (Some ''{foo:bar}''))
          \<lparr>Header := (\<lambda>k. if k = ''Content-Type'' then [''application/json; charset''] else [])\<rparr>)
       (OutPtr [fooField, qField]) =
     (None, OutPtr [fooField\<lparr>fval := VString ''bar''\<rparr>, qField])"
  by (simp add: JSONBodyDecoder_def BindJSONBody_def HeaderGet_def testEnv_def jsonRequest_def
        MethodGet_def testDecode_def)

text \<open>
  Claim C7 at an input where the code fails it. A \<^verbatim>\<open>POST\<close> request built with a nil
  body, and a binder whose one decoder does not match it: the claim has the body step
  do nothing and succeed, as it does when the same request has a body. The code
  dereferences the nil body at \<^verbatim>\<open>defer req.Body.Close()\<close>, before it asks any decoder,
  and the call ends in a panic; the extraction stages do not run.
\<close>

theorem C7_nil_body_panics_before_decoders:
  "find (\<lambda>d. Match d (jsonRequest ''POST'' None))
       (bodyDecoders (NewBinder [WithBodyDecoder xmlDecoder])) = None \<and>
   BindRequest testEnv (NewBinder [WithBodyDecoder xmlDecoder])
       (jsonRequest ''POST'' None) (OutPtr [fooField, qField]) =
     \<lparr>ret = Some (Panic NilDereference), dest = OutPtr [fooField, qField],
      body_closed = False\<rparr> \<and>
   BindRequest testEnv (NewBinder [WithBodyDecoder xmlDecoder])
       (jsonRequest ''POST'' (Some ''foo'')) (OutPtr [fooField, qField]) =
     \<lparr>ret = None, dest = OutPtr [fooField, qField\<lparr>fval := VString ''a''\<rparr>],
      body_closed = True\<rparr>"
  by (simp add: run_defs xmlDecoder_def jsonRequest_def fooField_def qField_def)

text \<open>
  Claim C8, as the code has it. A request whose method is \<^verbatim>\<open>GET\<close> is never given to a
  body decoder: the outcome of \<^verbatim>\<open>BindRequest\<close> is the same whatever decoders are
  registered, the body stage leaves the destination alone, the body is not closed, and
  \<^verbatim>\<open>BindJSONBody\<close> returns at once. The test in the code is for \<^verbatim>\<open>GET\<close>: the
  claim's other example of a retrieval-style request, \<^verbatim>\<open>HEAD\<close>, does not pass it.
\<close>

theorem C8_get_skips_body:
  assumes "Method req = MethodGet"
  shows "BindRequest env (options\<lparr>bodyDecoders := ds\<rparr>) req outv =
           BindRequest env (options\<lparr>bodyDecoders := []\<rparr>) req outv \<and>
         bodyStage (options\<lparr>bodyDecoders := ds\<rparr>) req outv = (None, outv) \<and>
         body_closed (BindRequest env (options\<lparr>bodyDecoders := ds\<rparr>) req outv) = False \<and>
         BindJSONBody env jsonDecode req outv = (None, outv)"
  using assms
  by (simp add: BindRequest_def bodyStage_def BindJSONBody_def bindRest_decoders split: prod.splits)

theorem C8_witness:
  "BindRequest testEnv
      ((NewBinder [])\<lparr>bodyDecoders := [JSONBodyDecoder testEnv testDecode]\<rparr>)
      (jsonRequest ''GET'' (Some ''{foo:bar}'')) (OutPtr [fooField, qField]) =
     \<lparr>ret = None, dest = OutPtr [fooField, qField\<lparr>fval := VString ''a''\<rparr>], body_closed = False\<rparr> \<and>
   bodyStage ((NewBinder [])\<lparr>bodyDecoders := [JSONBodyDecoder testEnv testDecode]\<rparr>)
      (jsonRequest ''GET'' (Some ''{foo:bar}'')) (OutPtr [fooField, qField]) =
     (None, OutPtr [fooField, qField])"
proof -
  have m: "Method (jsonRequest ''GET'' (Some ''{foo:bar}'')) = MethodGet"
    by (simp add: jsonRequest_def MethodGet_def)
  have e: "BindRequest testEnv ((NewBinder [])\<lparr>bodyDecoders := []\<rparr>)
             (jsonRequest ''GET'' (Some ''{foo:bar}'')) (OutPtr [fooField, qField]) =
           \<lparr>ret = None, dest = OutPtr [fooField, qField\<lparr>fval := VString ''a''\<rparr>], body_closed = False\<rparr>"
    by (simp add: run_defs jsonRequest_def fooField_def qField_def)
  from C8_get_skips_body
         [OF m, where env = testEnv and options = "NewBinder []"
            and ds = "[JSONBodyDecoder testEnv testDecode]"
            and outv = "OutPtr [fooField, qField]" and jsonDecode = testDecode] e
  show ?thesis by simp
qed

text \<open>A \<^verbatim>\<open>HEAD\<close> request with a JSON body and the JSON decoder registered: the body stage
  decodes the body into the destination.\<close>

theorem C8_head_counterexample:
  "bodyStage ((NewBinder [])\<lparr>bodyDecoders := [JSONBodyDecoder testEnv testDecode]\<rparr>)
      (jsonRequest ''HEAD'' (Some ''{foo:bar}'')) (OutPtr [fooField, qField]) =
     (None, OutPtr [fooField\<lparr>fval := VString ''bar''\<rparr>, qField]) \<and>
   dest (BindRequest testEnv
      ((NewBinder [])\<lparr>bodyDecoders := [JSONBodyDecoder testEnv testDecode]\<rparr>)
      (jsonRequest ''HEAD'' (Some ''{foo:bar}'')) (OutPtr [fooField, qField])) \<noteq>
   dest (BindRequest testEnv
      ((NewBinder [])\<lparr>bodyDecoders := []\<rparr>)
      (jsonRequest ''HEAD'' (Some ''{foo:bar}'')) (OutPtr [fooField, qField]))"
  by (simp add: run_defs jsonRequest_def fooField_def qField_def JSONBodyDecoder_def testDecode_def)

text \<open>
  Claim C9. A signed or unsigned integer slot coerced from a raw value that parses as a
  64-bit integer \<open>x\<close> is set, with success, to \<open>x\<close> cut to the width \<open>w\<close> of the slot: the
  value congruent to \<open>x\<close> modulo \<open>2^w\<close> in the range of the type. No range error comes from
  the width.
\<close>

theorem C9_integer_narrowing:
  assumes "shapeOf ty = Scalar" and "v0 \<noteq> []"
  shows "(kindOf ty = KInt s \<and> ParseInt v0 = Inr x \<longrightarrow>
            bind env ty cur (v0 # rest) = (None, VInt (SetInt s x)) \<and>
            SetInt s x = (x + 2 ^ (bits s - 1)) mod 2 ^ bits s - 2 ^ (bits s - 1)) \<and>
         (kindOf ty = KUint s \<and> ParseUint v0 = Inr n \<longrightarrow>
            bind env ty cur (v0 # rest) = (None, VUint (SetUint s n)) \<and>
            SetUint s n = n mod 2 ^ bits s)"
proof -
  from shape_Scalar [OF assms(1)] have
    a: "\<not> implementsTextUnmarshaler ty" "\<not> implementsTextUnmarshaler (TPtr ty)" "ty \<noteq> bytesType"
    by blast+
  show ?thesis
    using assms(2) SetInt_eq [of s x] SetUint_eq [of s n] by (simp add: bind_plain(2,3) [OF a])
qed

theorem C9_witness:
  "bind testEnv (TInt S8) (VInt 0) [''300''] = (None, VInt 44) \<and>
   bind testEnv (TUint S16) (VUint 7) [''65537''] = (None, VUint 1)"
proof -
  have s: "shapeOf (TInt S8) = Scalar" "shapeOf (TUint S16) = Scalar"
    by (simp_all add: shapeOf_def bytesType_def)
  have n: "''300'' \<noteq> []" "''65537'' \<noteq> []" by simp_all
  have p: "ParseInt ''300'' = Inr 300" "ParseUint ''65537'' = Inr 65537"
    by (simp_all add: ParseInt_def ParseUint_def)
  from C9_integer_narrowing
         [OF s(1) n(1), where s = S8 and x = 300 and env = testEnv and cur = "VInt 0"
            and rest = "[]" and n = 0] p(1)
  have "bind testEnv (TInt S8) (VInt 0) [''300''] = (None, VInt 44)" by simp
  moreover from C9_integer_narrowing
         [OF s(2) n(2), where s = S16 and x = 0 and env = testEnv and cur = "VUint 7"
            and rest = "[]" and n = 65537] p(2)
  have "bind testEnv (TUint S16) (VUint 7) [''65537''] = (None, VUint 1)" by simp
  ultimately show ?thesis by simp
qed

text \<open>
  Claim C10. For a request whose method is not \<^verbatim>\<open>GET\<close>, \<^verbatim>\<open>BindRequest\<close> sets up the
  closing of the body before anything else. With a nil body that is a nil dereference:
  the call panics, the destination untouched, whatever the options are (no decoder need
  be registered). With a body, the body is closed when the call ends, however it ends.
\<close>

theorem C10_nil_body_panics:
  assumes "Method req \<noteq> MethodGet"
  shows "(Body req = None \<longrightarrow>
            BindRequest env options req outv =
              \<lparr>ret = Some (Panic NilDereference), dest = outv, body_closed = False\<rparr>) \<and>
         (Body req \<noteq> None \<longrightarrow> body_closed (BindRequest env options req outv))"
  using assms by (auto simp: BindRequest_def split: option.splits prod.splits)

theorem C10_witness:
  "BindRequest testEnv (NewBinder []) (jsonRequest ''POST'' None) (OutPtr [fooField, qField]) =
     \<lparr>ret = Some (Panic NilDereference), dest = OutPtr [fooField, qField], body_closed = False\<rparr> \<and>
   body_closed (BindRequest testEnv (NewBinder []) (jsonRequest ''POST'' (Some ''foo''))
                  (OutPtr [fooField, qField]))"
proof -
  have m: "Method (jsonRequest ''POST'' b) \<noteq> MethodGet" for b
    by (simp add: jsonRequest_def MethodGet_def)
  have b: "Body (jsonRequest ''POST'' None) = None" "Body (jsonRequest ''POST'' (Some ''foo'')) \<noteq> None"
    by (simp_all add: jsonRequest_def)
  show ?thesis
    using b
      C10_nil_body_panics
        [OF m [of None], where env = testEnv and options = "NewBinder []"
           and outv = "OutPtr [fooField, qField]"]
      C10_nil_body_panics
        [OF m [of "Some ''foo''"], where env = testEnv and options = "NewBinder []"
           and outv = "OutPtr [fooField, qField]"]
    by simp
qed

end
